theory Spec2Isabelle
  imports Main "HOL-Library.List_Lexorder" "HOL-Library.Char_ord"
begin

text \<open>
  A meal-advice application in three modules: the server, with four routes over two
  SQLite tables; \<open>services/geminiService.ts\<close>, the two calls of the generative-AI
  provider; \<open>App.tsx\<close>, the React component that holds the interface's state. Each
  function is modelled as a function on explicit state; what belongs to the runtime or
  to a library is a parameter.
\<close>

section \<open>JavaScript values\<close>

text \<open>
  The values that travel through the application are the ones \<open>JSON.parse\<close> produces,
  plus \<open>undefined\<close> for a property that is not there. Strings are byte strings (UTF-8);
  numbers are the integers (an age, the 0/1 safety flag); an object is the list of its
  own properties, read by the first entry of a key.
\<close>

datatype jsval =
    JUndefined
  | JNull
  | JBool bool
  | JNum int
  | JStr string
  | JArr "jsval list"
  | JObj "(string \<times> jsval) list"

datatype error = TypeError | SyntaxError | ProviderFailure

text \<open>The condition of \<open>v ? a : b\<close>, \<open>!v\<close> and \<open>v || d\<close>.\<close>

fun truthy :: "jsval \<Rightarrow> bool" where
  "truthy JUndefined = False"
| "truthy JNull = False"
| "truthy (JBool b) = b"
| "truthy (JNum n) = (n \<noteq> 0)"
| "truthy (JStr s) = (s \<noteq> [])"
| "truthy (JArr xs) = True"
| "truthy (JObj kvs) = True"

text \<open>
  The property read \<open>v.k\<close>, for the property names the application uses (none of them is
  a property of a prototype): a TypeError on \<open>null\<close> and \<open>undefined\<close>, the own property
  of an object, \<open>undefined\<close> everywhere else.
\<close>

fun get_prop :: "jsval \<Rightarrow> string \<Rightarrow> error + jsval" where
  "get_prop JUndefined k = Inl TypeError"
| "get_prop JNull k = Inl TypeError"
| "get_prop (JObj kvs) k = Inr (case map_of kvs k of None \<Rightarrow> JUndefined | Some v \<Rightarrow> v)"
| "get_prop v k = Inr JUndefined"

section \<open>The runtime and the libraries\<close>

datatype sqlval = SqlNull | SqlInt int | SqlText string

datatype affinity = AText | AInteger | ANumeric

text \<open>
  What the code calls but does not contain is a parameter of the model:
  \<^item> \<open>JSON_parse\<close>: \<open>JSON.parse\<close>, \<open>None\<close> for a SyntaxError;
  \<^item> \<open>ToString\<close>: the conversion that \<open>+\<close> applies to an operand that is not a string,
    \<open>None\<close> for a TypeError;
  \<^item> \<open>body_accepted\<close>: whether \<open>express.json({ limit: '10mb' })\<close> lets the serialised
    request body through;
  \<^item> \<open>driver_bind\<close>: what the database driver's \<open>run\<close> binds for arguments other than
    the plain ones below, \<open>None\<close> when it throws.
\<close>

record env =
  JSON_parse :: "string \<Rightarrow> jsval option"
  ToString :: "jsval \<Rightarrow> string option"
  body_accepted :: "jsval \<Rightarrow> bool"
  driver_bind :: "affinity list \<Rightarrow> jsval list \<Rightarrow> sqlval list option"

text \<open>
  A string bound to a TEXT column is stored as that text, an integer (exact as a
  JavaScript number) bound to an INTEGER or NUMERIC column as that integer, and \<open>null\<close>
  as NULL.
\<close>

fun plain_value :: "affinity \<Rightarrow> jsval \<Rightarrow> sqlval option" where
  "plain_value a JNull = Some SqlNull"
| "plain_value AText (JStr s) = Some (SqlText s)"
| "plain_value AInteger (JNum n) = (if \<bar>n\<bar> \<le> 2 ^ 53 then Some (SqlInt n) else None)"
| "plain_value ANumeric (JNum n) = (if \<bar>n\<bar> \<le> 2 ^ 53 then Some (SqlInt n) else None)"
| "plain_value a v = None"

fun plain_row :: "affinity list \<Rightarrow> jsval list \<Rightarrow> sqlval list option" where
  "plain_row [] [] = Some []"
| "plain_row (a # as) (v # vs) =
     (case plain_value a v of
        None \<Rightarrow> None
      | Some x \<Rightarrow> (case plain_row as vs of None \<Rightarrow> None | Some xs \<Rightarrow> Some (x # xs)))"
| "plain_row as vs = None"

definition bind_row :: "env \<Rightarrow> affinity list \<Rightarrow> jsval list \<Rightarrow> sqlval list option" where
  "bind_row env cols args =
     (case plain_row cols args of Some r \<Rightarrow> Some r | None \<Rightarrow> driver_bind env cols args)"

section \<open>The store\<close>

text \<open>
  \<^verbatim>\<open>
  CREATE TABLE IF NOT EXISTS user_profile (
    id INTEGER PRIMARY KEY CHECK (id = 1), age INTEGER, condition TEXT);
  CREATE TABLE IF NOT EXISTS food_logs (
    id INTEGER PRIMARY KEY AUTOINCREMENT, image_url TEXT, food_name TEXT,
    analysis TEXT, is_safe BOOLEAN, created_at DATETIME DEFAULT CURRENT_TIMESTAMP);
  \<close>
  A table is the list of its rows in the order of their rowids. \<open>created_at\<close> holds the text of CURRENT_TIMESTAMP
  (\<open>YYYY-MM-DD HH:MM:SS\<close>), which SQLite compares bytewise.
\<close>

record profile_row =
  row_id :: int
  row_age :: sqlval
  row_condition :: sqlval

record food_log =
  log_id :: int
  image_url :: sqlval
  food_name :: sqlval
  analysis :: sqlval
  is_safe :: sqlval
  created_at :: string

record database =
  user_profile :: "profile_row list"
  food_logs :: "food_log list"
  food_logs_seq :: int

text \<open>The constraints of \<open>user_profile\<close>: the primary key is unique and \<open>id = 1\<close>.\<close>

definition user_profile_ok :: "profile_row list \<Rightarrow> bool" where
  "user_profile_ok rows = (distinct (map row_id rows) \<and> list_all (\<lambda>r. row_id r = 1) rows)"

fun sql_to_js :: "sqlval \<Rightarrow> jsval" where
  "sql_to_js SqlNull = JNull"
| "sql_to_js (SqlInt n) = JNum n"
| "sql_to_js (SqlText s) = JStr s"

definition profile_to_js :: "profile_row \<Rightarrow> jsval" where
  "profile_to_js r =
     JObj [(''id'', JNum (row_id r)), (''age'', sql_to_js (row_age r)),
           (''condition'', sql_to_js (row_condition r))]"

section \<open>The HTTP routes\<close>

datatype response = Ok jsval | ServerError | PayloadTooLarge

definition success :: jsval where
  "success = JObj [(''success'', JBool True)]"

text \<open>
  \<^verbatim>\<open>
  app.get("/api/profile", (req, res) => {
    const profile = db.prepare("SELECT * FROM user_profile WHERE id = 1").get();
    res.json(profile || {});
  });
  \<close>
\<close>

definition select_profile :: "database \<Rightarrow> profile_row option" where
  "select_profile db = find (\<lambda>r. row_id r = 1) (user_profile db)"

definition get_profile :: "database \<Rightarrow> response \<times> database" where
  "get_profile db =
     (case select_profile db of
        None \<Rightarrow> (Ok (JObj []), db)
      | Some r \<Rightarrow> (Ok (profile_to_js r), db))"

text \<open>
  \<^verbatim>\<open>
  app.post("/api/profile", (req, res) => {
    const { age, condition } = req.body;
    db.prepare(`INSERT INTO user_profile (id, age, condition) VALUES (1, ?, ?)
      ON CONFLICT(id) DO UPDATE SET age = excluded.age, condition = excluded.condition
    `).run(age, condition);
    res.json({ success: true });
  });
  \<close>
  An exception in a handler leaves the store as it was and answers 500.
\<close>

definition upsert_profile :: "sqlval \<Rightarrow> sqlval \<Rightarrow> profile_row list \<Rightarrow> profile_row list" where
  "upsert_profile a c rows =
     (if list_ex (\<lambda>r. row_id r = 1) rows
      then map (\<lambda>r. if row_id r = 1 then r\<lparr>row_age := a, row_condition := c\<rparr> else r) rows
      else rows @ [\<lparr>row_id = 1, row_age = a, row_condition = c\<rparr>])"

definition post_profile :: "env \<Rightarrow> jsval \<Rightarrow> database \<Rightarrow> response \<times> database" where
  "post_profile env body db =
     (case get_prop body ''age'' of
        Inl e \<Rightarrow> (ServerError, db)
      | Inr age \<Rightarrow>
          (case get_prop body ''condition'' of
             Inl e \<Rightarrow> (ServerError, db)
           | Inr condition \<Rightarrow>
               (case bind_row env [AInteger, AText] [age, condition] of
                  Some [a, c] \<Rightarrow>
                    (Ok success, db\<lparr>user_profile := upsert_profile a c (user_profile db)\<rparr>)
                | _ \<Rightarrow> (ServerError, db))))"

text \<open>
  The request of the profile form, \<open>{age: number, condition: string}\<close>, and the store
  after the route has served it.
\<close>

definition profile_request :: "int \<Rightarrow> string \<Rightarrow> jsval" where
  "profile_request n s = JObj [(''age'', JNum n), (''condition'', JStr s)]"

definition saveProfile :: "env \<Rightarrow> database \<Rightarrow> int \<times> string \<Rightarrow> database" where
  "saveProfile env db call = snd (post_profile env (profile_request (fst call) (snd call)) db)"

text \<open>
  \<^verbatim>\<open>
  app.get("/api/logs", (req, res) => {
    const logs = db.prepare("SELECT * FROM food_logs ORDER BY created_at DESC LIMIT 50").all();
    res.json(logs);
  });
  \<close>
\<close>

text \<open>
  \<open>ORDER BY created_at DESC\<close>: newest first, rows of the same \<open>created_at\<close> in the order
  of the table (\<open>sort_key\<close> is stable, so the two reversals keep that order).
\<close>

definition order_by_created_at_desc :: "food_log list \<Rightarrow> food_log list" where
  "order_by_created_at_desc rows = rev (sort_key created_at (rev rows))"

definition select_logs :: "database \<Rightarrow> food_log list" where
  "select_logs db = take 50 (order_by_created_at_desc (food_logs db))"

definition get_logs :: "database \<Rightarrow> food_log list \<times> database" where
  "get_logs db = (select_logs db, db)"

text \<open>
  \<^verbatim>\<open>
  app.post("/api/logs", (req, res) => {
    const { image_url, food_name, analysis, is_safe } = req.body;
    db.prepare(`INSERT INTO food_logs (image_url, food_name, analysis, is_safe)
      VALUES (?, ?, ?, ?)`).run(image_url, food_name, analysis, is_safe ? 1 : 0);
    res.json({ success: true });
  });
  \<close>
  \<open>now\<close> is CURRENT_TIMESTAMP at the insertion; AUTOINCREMENT gives the row the id after
  the largest one ever used.
\<close>

definition insert_log :: "string \<Rightarrow> sqlval \<Rightarrow> sqlval \<Rightarrow> sqlval \<Rightarrow> sqlval \<Rightarrow> database \<Rightarrow> database" where
  "insert_log now u f a s db =
     db\<lparr>food_logs := food_logs db @
           [\<lparr>log_id = food_logs_seq db + 1, image_url = u, food_name = f, analysis = a,
             is_safe = s, created_at = now\<rparr>],
        food_logs_seq := food_logs_seq db + 1\<rparr>"

definition post_logs :: "env \<Rightarrow> string \<Rightarrow> jsval \<Rightarrow> database \<Rightarrow> response \<times> database" where
  "post_logs env now body db =
     (case get_prop body ''image_url'' of
        Inl e \<Rightarrow> (ServerError, db)
      | Inr u \<Rightarrow>
     (case get_prop body ''food_name'' of
        Inl e \<Rightarrow> (ServerError, db)
      | Inr f \<Rightarrow>
     (case get_prop body ''analysis'' of
        Inl e \<Rightarrow> (ServerError, db)
      | Inr a \<Rightarrow>
     (case get_prop body ''is_safe'' of
        Inl e \<Rightarrow> (ServerError, db)
      | Inr s \<Rightarrow>
          (case bind_row env [AText, AText, AText, ANumeric]
                  [u, f, a, JNum (if truthy s then 1 else 0)] of
             Some [u', f', a', s'] \<Rightarrow> (Ok success, insert_log now u' f' a' s' db)
           | _ \<Rightarrow> (ServerError, db))))))"

section \<open>The advisory client\<close>

text \<open>
  Both functions send one request to the provider and parse the text of its reply. The
  request is modelled without the prompt text; the reply is an input of the model:
  the provider failed (the call throws), or it answered with a text or with none.
\<close>

datatype schema =
    Type_STRING
  | Type_BOOLEAN
  | Type_OBJECT "(string \<times> schema) list" "string list"

record generate_request =
  model :: string
  inlineData :: "(string \<times> string) option"
  responseMimeType :: string
  responseSchema :: schema

datatype provider_reply = ProviderError | Response "string option"

text \<open>\<open>s.split(",")\<close>.\<close>

fun split_comma :: "string \<Rightarrow> string list" where
  "split_comma [] = [[]]"
| "split_comma (c # cs) =
     (if c = CHR '','' then [] # split_comma cs
      else (case split_comma cs of [] \<Rightarrow> [[c]] | p # ps \<Rightarrow> (c # p) # ps))"

text \<open>\<open>base64Image.split(",")[1] || base64Image\<close>.\<close>

definition image_data :: "string \<Rightarrow> string" where
  "image_data base64Image =
     (case split_comma base64Image of
        p # q # ps \<Rightarrow> (if q \<noteq> [] then q else base64Image)
      | _ \<Rightarrow> base64Image)"

definition analyzeFoodImage_request :: "string \<Rightarrow> generate_request" where
  "analyzeFoodImage_request base64Image =
     \<lparr>model = ''gemini-3-flash-preview'',
      inlineData = Some (''image/jpeg'', image_data base64Image),
      responseMimeType = ''application/json'',
      responseSchema =
        Type_OBJECT
          [(''foodName'', Type_STRING), (''isSafe'', Type_BOOLEAN),
           (''analysis'', Type_STRING), (''tips'', Type_STRING)]
          [''foodName'', ''isSafe'', ''analysis'', ''tips'']\<rparr>"

definition getDailyRecommendation_request :: generate_request where
  "getDailyRecommendation_request =
     \<lparr>model = ''gemini-3-flash-preview'',
      inlineData = None,
      responseMimeType = ''application/json'',
      responseSchema = Type_OBJECT [(''recommendation'', Type_STRING)] [''recommendation'']\<rparr>"

fun schema_properties :: "schema \<Rightarrow> (string \<times> schema) list" where
  "schema_properties (Type_OBJECT ps rs) = ps"
| "schema_properties s = []"

fun schema_required :: "schema \<Rightarrow> string list" where
  "schema_required (Type_OBJECT ps rs) = rs"
| "schema_required s = []"

text \<open>\<open>JSON.parse(response.text || "{}")\<close>.\<close>

definition text_or_default :: "string option \<Rightarrow> string" where
  "text_or_default t = (case t of None \<Rightarrow> ''{}'' | Some s \<Rightarrow> (if s = [] then ''{}'' else s))"

definition parse_reply :: "env \<Rightarrow> provider_reply \<Rightarrow> error + jsval" where
  "parse_reply env reply =
     (case reply of
        ProviderError \<Rightarrow> Inl ProviderFailure
      | Response t \<Rightarrow>
          (case JSON_parse env (text_or_default t) of
             None \<Rightarrow> Inl SyntaxError
           | Some v \<Rightarrow> Inr v))"

text \<open>
  \<open>base64Image\<close> is the FileReader's result, \<open>None\<close> when the read failed (\<open>null\<close>, on
  which \<open>split\<close> throws before the provider is called).
\<close>

definition analyzeFoodImage ::
  "env \<Rightarrow> string option \<Rightarrow> jsval \<Rightarrow> jsval \<Rightarrow> provider_reply \<Rightarrow> error + jsval" where
  "analyzeFoodImage env base64Image age condition reply =
     (case base64Image of
        None \<Rightarrow> Inl TypeError
      | Some b \<Rightarrow> parse_reply env reply)"

definition getDailyRecommendation ::
  "env \<Rightarrow> food_log list \<Rightarrow> jsval \<Rightarrow> jsval \<Rightarrow> provider_reply \<Rightarrow> error + jsval" where
  "getDailyRecommendation env logs age condition reply = parse_reply env reply"

section \<open>The application\<close>

datatype tab = Home | Analyze | History | Profile

record UserProfile =
  age :: jsval
  condition :: jsval

datatype alert = NeedProfile | AnalysisFailed

text \<open>The calls that leave the component: an alert, a call of the advisory client.\<close>

datatype effect =
    Alert alert
  | AnalyzeFoodImage "string option" jsval jsval
  | GetDailyRecommendation "food_log list" jsval jsval

text \<open>
  The component's state variables, the store behind the HTTP routes, the analyses that
  have been started and not finished (the \<open>onloadend\<close> closures: the file's data URL and
  the profile of that render), and the effects so far.
\<close>

record world =
  activeTab :: tab
  profile :: UserProfile
  logs :: "food_log list"
  recommendation :: jsval
  loading :: bool
  analysisResult :: jsval
  server :: database
  pending :: "(string option \<times> jsval \<times> jsval) list"
  trace :: "effect list"

definition init :: "database \<Rightarrow> world" where
  "init db =
     \<lparr>activeTab = Home, profile = \<lparr>age = JUndefined, condition = JUndefined\<rparr>, logs = [],
      recommendation = JStr [], loading = False, analysisResult = JNull, server = db,
      pending = [], trace = []\<rparr>"

text \<open>
  \<open>JSON.stringify\<close> leaves out the properties whose value is \<open>undefined\<close>; the server
  reads the rest back. A request to the application's own server arrives, and \<open>fetch\<close>
  resolves whatever the status of the answer is.
\<close>

fun request_body :: "jsval \<Rightarrow> jsval" where
  "request_body (JObj kvs) = JObj (filter (\<lambda>kv. snd kv \<noteq> JUndefined) kvs)"
| "request_body v = v"

definition fetch_post ::
  "env \<Rightarrow> (jsval \<Rightarrow> database \<Rightarrow> response \<times> database) \<Rightarrow> jsval \<Rightarrow> database
     \<Rightarrow> response \<times> database" where
  "fetch_post env handler body db =
     (if body_accepted env body then handler (request_body body) db
      else (PayloadTooLarge, db))"

text \<open>
  \<^verbatim>\<open>
  const fetchRecommendation = async () => {
    try {
      const data = await getDailyRecommendation(logs.slice(0, 5), profile.age!, profile.condition!);
      setRecommendation(data.recommendation);
    } catch (e) { console.error(e); }
  };
  \<close>
\<close>

definition fetchRecommendation :: "env \<Rightarrow> provider_reply \<Rightarrow> world \<Rightarrow> world" where
  "fetchRecommendation env reply w =
     (let l = take 5 (logs w); a = age (profile w); c = condition (profile w);
          w1 = w\<lparr>trace := trace w @ [GetDailyRecommendation l a c]\<rparr>
      in case getDailyRecommendation env l a c reply of
           Inl e \<Rightarrow> w1
         | Inr data \<Rightarrow>
             (case get_prop data ''recommendation'' of
                Inl e \<Rightarrow> w1
              | Inr r \<Rightarrow> w1\<lparr>recommendation := r\<rparr>))"

text \<open>
  \<^verbatim>\<open>
  useEffect(() => {
    if (profile.age && logs.length > 0) { fetchRecommendation(); }
  }, [profile, logs]);
  \<close>
  It runs after every render in which \<open>profile\<close> or \<open>logs\<close> was set.
\<close>

definition useEffect_profile_logs :: "env \<Rightarrow> provider_reply \<Rightarrow> world \<Rightarrow> world" where
  "useEffect_profile_logs env reply w =
     (if truthy (age (profile w)) \<and> length (logs w) > 0 then fetchRecommendation env reply w
      else w)"

definition field :: "jsval \<Rightarrow> string \<Rightarrow> jsval" where
  "field v k = (case get_prop v k of Inl e \<Rightarrow> JUndefined | Inr x \<Rightarrow> x)"

definition fetchProfile :: "env \<Rightarrow> provider_reply \<Rightarrow> world \<Rightarrow> world" where
  "fetchProfile env reply w =
     (case get_profile (server w) of
        (Ok data, db) \<Rightarrow>
          useEffect_profile_logs env reply
            (w\<lparr>profile := \<lparr>age = field data ''age'', condition = field data ''condition''\<rparr>,
               server := db\<rparr>)
      | (r, db) \<Rightarrow> w\<lparr>server := db\<rparr>)"

definition fetchLogs :: "env \<Rightarrow> provider_reply \<Rightarrow> world \<Rightarrow> world" where
  "fetchLogs env reply w =
     (case get_logs (server w) of
        (data, db) \<Rightarrow> useEffect_profile_logs env reply (w\<lparr>logs := data, server := db\<rparr>))"

text \<open>
  \<^verbatim>\<open>
  const handleProfileSave = async (e) => {
    e.preventDefault();
    await fetch('/api/profile', { method: 'POST', ..., body: JSON.stringify(profile) });
    setActiveTab('home');
  };
  \<close>
\<close>

definition handleProfileSave :: "env \<Rightarrow> world \<Rightarrow> world" where
  "handleProfileSave env w =
     (let body = JObj [(''age'', age (profile w)), (''condition'', condition (profile w))]
      in w\<lparr>server := snd (fetch_post env (post_profile env) body (server w)),
            activeTab := Home\<rparr>)"

text \<open>
  The first part of \<open>handleImageUpload\<close>, up to \<open>reader.readAsDataURL(file)\<close>:
  \<^verbatim>\<open>
    const file = e.target.files?.[0];
    if (!file) return;
    if (!profile.age || !profile.condition) {
      alert(...); setActiveTab('profile'); return;
    }
    setLoading(true);
    setAnalysisResult(null);
  \<close>
\<close>

datatype upload = NoFile | File "string option"

definition handleImageUpload :: "upload \<Rightarrow> world \<Rightarrow> world" where
  "handleImageUpload u w =
     (case u of
        NoFile \<Rightarrow> w
      | File r \<Rightarrow>
          (if \<not> truthy (age (profile w)) \<or> \<not> truthy (condition (profile w))
           then w\<lparr>trace := trace w @ [Alert NeedProfile], activeTab := Profile\<rparr>
           else w\<lparr>loading := True, analysisResult := JNull,
                  pending := pending w @ [(r, age (profile w), condition (profile w))]\<rparr>))"

text \<open>
  The string literal between the analysis and the tip: two line feeds, the Hangul
  syllable U+D301 in UTF-8, a colon and a space.
\<close>

definition tip_separator :: string where
  "tip_separator = [CHR 0x0A, CHR 0x0A, CHR 0xED, CHR 0x8C, CHR 0x81, CHR 0x3A, CHR 0x20]"

text \<open>An operand of \<open>+\<close> next to a string: a string as it is, anything else converted.\<close>

definition string_operand :: "env \<Rightarrow> jsval \<Rightarrow> error + string" where
  "string_operand env v =
     (case v of
        JStr s \<Rightarrow> Inr s
      | _ \<Rightarrow> (case ToString env v of None \<Rightarrow> Inl TypeError | Some s \<Rightarrow> Inr s))"

text \<open>
  \<^verbatim>\<open>
  body: JSON.stringify({
    image_url: base64,
    food_name: result.foodName,
    analysis: result.analysis + <separator> + result.tips,
    is_safe: result.isSafe,
  })
  \<close>
\<close>

definition log_body :: "env \<Rightarrow> string \<Rightarrow> jsval \<Rightarrow> error + jsval" where
  "log_body env base64 result =
     (case get_prop result ''foodName'' of
        Inl e \<Rightarrow> Inl e
      | Inr foodName \<Rightarrow>
     (case get_prop result ''analysis'' of
        Inl e \<Rightarrow> Inl e
      | Inr a \<Rightarrow>
     (case string_operand env a of
        Inl e \<Rightarrow> Inl e
      | Inr s1 \<Rightarrow>
     (case get_prop result ''tips'' of
        Inl e \<Rightarrow> Inl e
      | Inr t \<Rightarrow>
     (case string_operand env t of
        Inl e \<Rightarrow> Inl e
      | Inr s2 \<Rightarrow>
     (case get_prop result ''isSafe'' of
        Inl e \<Rightarrow> Inl e
      | Inr isSafe \<Rightarrow>
          Inr (JObj [(''image_url'', JStr base64), (''food_name'', foodName),
                     (''analysis'', JStr (s1 @ tip_separator @ s2)),
                     (''is_safe'', isSafe)])))))))"

text \<open>
  The second part, \<open>reader.onloadend\<close>:
  \<^verbatim>\<open>
    const base64 = reader.result as string;
    try {
      const result = await analyzeFoodImage(base64, profile.age!, profile.condition!);
      setAnalysisResult(result);
      await fetch('/api/logs', { method: 'POST', ..., body: ... });
      fetchLogs();
    } catch (error) {
      console.error(error);
      alert(...);
    } finally {
      setLoading(false);
    }
  \<close>
\<close>

definition catch_finally :: "world \<Rightarrow> world" where
  "catch_finally w = w\<lparr>trace := trace w @ [Alert AnalysisFailed], loading := False\<rparr>"

definition onloadend ::
  "env \<Rightarrow> string \<Rightarrow> provider_reply \<Rightarrow> provider_reply \<Rightarrow> string option \<times> jsval \<times> jsval
     \<Rightarrow> world \<Rightarrow> world" where
  "onloadend env now reply rec_reply closure w =
     (case closure of
        (base64, a, c) \<Rightarrow>
          (let w0 = w\<lparr>trace := trace w @ [AnalyzeFoodImage base64 a c]\<rparr>
           in case (analyzeFoodImage env base64 a c reply, base64) of
                (Inr result, Some b) \<Rightarrow>
                  (let w1 = w0\<lparr>analysisResult := result\<rparr>
                   in case log_body env b result of
                        Inl e \<Rightarrow> catch_finally w1
                      | Inr body \<Rightarrow>
                          (fetchLogs env rec_reply
                             (w1\<lparr>server :=
                                   snd (fetch_post env (post_logs env now) body (server w1))\<rparr>))
                          \<lparr>loading := False\<rparr>)
              | _ \<Rightarrow> catch_finally w0))"

section \<open>The interface as a transition system\<close>

text \<open>
  What \<open>App\<close> returns: the analysis view while \<open>loading || analysisResult\<close>, else the
  view of the active tab. The file input, whose \<open>onChange\<close> is \<open>handleImageUpload\<close>, is
  part of the home view; every camera button calls \<open>fileInputRef.current?.click()\<close>.
  The home view stays mounted while its exit animation runs (0.2 s, \<open>AnimatePresence\<close>
  with \<open>mode="wait"\<close>), after the state has moved on: the input's change event can
  reach \<open>handleImageUpload\<close> while \<open>loading\<close> is set or another tab is active, and the
  handler tests nothing but the file and the profile. So a capture is an event of every
  state. Each event is handled as a whole before the next.
\<close>

datatype view = AnalysisView | HomeView | HistoryView | ProfileView | Blank

definition rendered :: "world \<Rightarrow> view" where
  "rendered w =
     (if loading w \<or> truthy (analysisResult w) then AnalysisView
      else (case activeTab w of
              Home \<Rightarrow> HomeView
            | History \<Rightarrow> HistoryView
            | Profile \<Rightarrow> ProfileView
            | Analyze \<Rightarrow> Blank))"

text \<open>The age buttons \<open>[60, 70, 80, 90]\<close> and the four condition buttons (UTF-8).\<close>

definition ages :: "int list" where
  "ages = [60, 70, 80, 90]"

definition diabetes :: string where
  "diabetes = [CHR 0xEB, CHR 0x8B, CHR 0xB9, CHR 0xEB, CHR 0x87, CHR 0xA8]"

definition conditions :: "string list" where
  "conditions =
     [diabetes,
      [CHR 0xEA, CHR 0xB3, CHR 0xA0, CHR 0xED, CHR 0x98, CHR 0x88, CHR 0xEC, CHR 0x95, CHR 0x95],
      [CHR 0xEA, CHR 0xB3, CHR 0xA0, CHR 0xEC, CHR 0xA7, CHR 0x80, CHR 0xED, CHR 0x98, CHR 0x88,
       CHR 0xEC, CHR 0xA6, CHR 0x9D],
      [CHR 0xEA, CHR 0xB1, CHR 0xB4, CHR 0xEA, CHR 0xB0, CHR 0x95, CHR 0x20, CHR 0xEA, CHR 0xB4,
       CHR 0x80, CHR 0xEB, CHR 0xA6, CHR 0xAC]]"

text \<open>
  The events: a fetch of the profile or of the logs answered, a click on a tab of the
  navigation bar, the change event of the file input with the choice made in the file
  chooser (a capture), the end of a started analysis (its position among the started ones, the
  server's clock, the provider's reply), the two buttons of the analysis view, the
  buttons and the submission of the profile form. An event that sets \<open>profile\<close> or
  \<open>logs\<close> carries the provider's reply to the recommendation request it may cause.
\<close>

datatype event =
    FetchProfile provider_reply
  | FetchLogs provider_reply
  | ClickNav tab
  | ClickCamera upload
  | LoadEnd nat string provider_reply provider_reply
  | ClickAnalysisHome
  | ClickConfirm
  | ClickAge int provider_reply
  | ClickCondition string provider_reply
  | SubmitProfile

fun step :: "env \<Rightarrow> event \<Rightarrow> world \<Rightarrow> world" where
  "step env (FetchProfile rec_reply) w = fetchProfile env rec_reply w"
| "step env (FetchLogs rec_reply) w = fetchLogs env rec_reply w"
| "step env (ClickNav t) w = (if t = Analyze then w else w\<lparr>activeTab := t\<rparr>)"
| "step env (ClickCamera u) w = handleImageUpload u w"
| "step env (LoadEnd i now reply rec_reply) w =
     (if i < length (pending w)
      then onloadend env now reply rec_reply (pending w ! i)
             (w\<lparr>pending := take i (pending w) @ drop (Suc i) (pending w)\<rparr>)
      else w)"
| "step env ClickAnalysisHome w =
     (if rendered w = AnalysisView then w\<lparr>analysisResult := JNull, activeTab := Home\<rparr> else w)"
| "step env ClickConfirm w =
     (if rendered w = AnalysisView \<and> \<not> loading w \<and> truthy (analysisResult w)
      then w\<lparr>activeTab := Home\<rparr> else w)"
| "step env (ClickAge n rec_reply) w =
     (if rendered w = ProfileView \<and> n \<in> set ages
      then useEffect_profile_logs env rec_reply (w\<lparr>profile := (profile w)\<lparr>age := JNum n\<rparr>\<rparr>)
      else w)"
| "step env (ClickCondition c rec_reply) w =
     (if rendered w = ProfileView \<and> c \<in> set conditions
      then useEffect_profile_logs env rec_reply (w\<lparr>profile := (profile w)\<lparr>condition := JStr c\<rparr>\<rparr>)
      else w)"
| "step env SubmitProfile w = (if rendered w = ProfileView then handleProfileSave env w else w)"

definition run :: "env \<Rightarrow> event list \<Rightarrow> world \<Rightarrow> world" where
  "run env evs w = foldl (\<lambda>w e. step env e w) w evs"


text \<open>
  The analysis flow: a capture with a file that was read, then the end of its analysis.
\<close>

definition analysis_flow ::
  "env \<Rightarrow> string \<Rightarrow> string \<Rightarrow> provider_reply \<Rightarrow> provider_reply \<Rightarrow> world \<Rightarrow> world" where
  "analysis_flow env now b reply rec_reply w =
     run env [ClickCamera (File (Some b)), LoadEnd 0 now reply rec_reply] w"

text \<open>
  An effect is guarded when it is not a recommendation call, or is one made with a truthy
  age and at least one log.
\<close>

fun recommendation_guarded :: "effect \<Rightarrow> bool" where
  "recommendation_guarded (GetDailyRecommendation l a c) = (truthy a \<and> l \<noteq> [])"
| "recommendation_guarded e = True"

section \<open>Sample inputs\<close>

text \<open>
  A runtime that agrees with \<open>JSON.parse\<close> on the four texts used below, converts the
  primitive values \<open>undefined\<close>, \<open>null\<close>, \<open>true\<close> and \<open>false\<close> to strings, accepts every
  body and binds plain arguments only.
\<close>

definition rice :: string where
  "rice = [CHR 0xEB, CHR 0xB0, CHR 0xB1, CHR 0xEB, CHR 0xAF, CHR 0xB8, CHR 0xEB, CHR 0xB0, CHR 0xA5]"

definition canned_text :: string where
  \<open>canned_text = ''{"foodName":"'' @ rice @ ''","isSafe":true,"analysis":"...","tips":"..."}''\<close>

definition canned_result :: jsval where
  "canned_result =
     JObj [(''foodName'', JStr rice), (''isSafe'', JBool True), (''analysis'', JStr ''...''),
           (''tips'', JStr ''...'')]"

definition unflagged_text :: string where
  \<open>unflagged_text = ''{"foodName":"rice","analysis":"fine","tips":"less"}''\<close>

definition unflagged_result :: jsval where
  "unflagged_result =
     JObj [(''foodName'', JStr ''rice''), (''analysis'', JStr ''fine''), (''tips'', JStr ''less'')]"

definition sample_parse :: "string \<Rightarrow> jsval option" where
  "sample_parse s =
     (if s = ''{}'' then Some (JObj [])
      else if s = canned_text then Some canned_result
      else if s = unflagged_text then Some unflagged_result
      else None)"

fun sample_ToString :: "jsval \<Rightarrow> string option" where
  "sample_ToString JUndefined = Some ''undefined''"
| "sample_ToString JNull = Some ''null''"
| "sample_ToString (JBool b) = Some (if b then ''true'' else ''false'')"
| "sample_ToString v = None"

definition sample_env :: env where
  "sample_env =
     \<lparr>JSON_parse = sample_parse, ToString = sample_ToString, body_accepted = (\<lambda>b. True),
      driver_bind = (\<lambda>cols args. None)\<rparr>"

definition empty_db :: database where
  "empty_db = \<lparr>user_profile = [], food_logs = [], food_logs_seq = 0\<rparr>"

definition sample_world :: world where
  "sample_world = (init empty_db)\<lparr>profile := \<lparr>age = JNum 70, condition = JStr diabetes\<rparr>\<rparr>"

definition one_row_db :: database where
  "one_row_db =
     \<lparr>user_profile = [\<lparr>row_id = 1, row_age = SqlInt 70, row_condition = SqlText diabetes\<rparr>],
      food_logs = [], food_logs_seq = 0\<rparr>"

definition sample_image :: string where
  "sample_image = ''data:image/jpeg;base64,AAAA''"

definition sample_now :: string where
  "sample_now = ''2026-01-01 10:00:00''"

definition unflagged_run :: world where
  "unflagged_run =
     analysis_flow sample_env sample_now sample_image (Response (Some unflagged_text))
       ProviderError sample_world"

text \<open>The clicks that fill in the profile form and return to the home view.\<close>

definition set_profile :: "event list" where
  "set_profile =
     [ClickNav Profile, ClickAge 70 ProviderError, ClickCondition diabetes ProviderError,
      ClickNav Home]"





text \<open>A store with one old log and fifty newer ones.\<close>

definition old_log :: food_log where
  "old_log =
     \<lparr>log_id = 1, image_url = SqlText ''a'', food_name = SqlText ''tea'', analysis = SqlNull,
      is_safe = SqlInt 1, created_at = ''2026-01-01 08:00:00''\<rparr>"

definition new_log :: food_log where
  "new_log =
     \<lparr>log_id = 2, image_url = SqlText ''b'', food_name = SqlText ''rice'', analysis = SqlNull,
      is_safe = SqlInt 0, created_at = ''2026-01-02 08:00:00''\<rparr>"

definition full_db :: database where
  "full_db =
     \<lparr>user_profile = [], food_logs = old_log # replicate 50 new_log, food_logs_seq = 51\<rparr>"

section \<open>Properties of the profile store\<close>

lemma user_profile_ok_cases:
  "user_profile_ok rows \<Longrightarrow> rows = [] \<or> (\<exists>r. rows = [r] \<and> row_id r = 1)"
  by (cases rows; cases "tl rows") (auto simp: user_profile_ok_def)

lemma upsert_profile_ok:
  "user_profile_ok rows \<Longrightarrow>
     upsert_profile a c rows = [\<lparr>row_id = 1, row_age = a, row_condition = c\<rparr>]"
  by (drule user_profile_ok_cases) (auto simp: upsert_profile_def)

lemma upsert_profile_twice:
  "upsert_profile a c (upsert_profile a c rows) = upsert_profile a c rows"
proof (cases "list_ex (\<lambda>r. row_id r = 1) rows")
  case True
  then have "list_ex (\<lambda>r. row_id r = 1)
      (map (\<lambda>r. if row_id r = 1 then r\<lparr>row_age := a, row_condition := c\<rparr> else r) rows)"
    by (induction rows) auto
  then show ?thesis
    using True by (simp add: upsert_profile_def o_def)
next
  case False
  then have "map (\<lambda>r. if row_id r = 1 then r\<lparr>row_age := a, row_condition := c\<rparr> else r) rows = rows"
    by (induction rows) auto
  then show ?thesis
    using False by (simp add: upsert_profile_def)
qed

lemma post_profile_plain:
  "\<bar>n\<bar> \<le> 2 ^ 53 \<Longrightarrow>
     post_profile env (profile_request n s) db =
       (Ok success, db\<lparr>user_profile := upsert_profile (SqlInt n) (SqlText s) (user_profile db)\<rparr>)"
  by (simp add: post_profile_def profile_request_def bind_row_def)

lemma post_profile_twice:
  "snd (post_profile env b (snd (post_profile env b db))) = snd (post_profile env b db)"
  by (auto simp: post_profile_def upsert_profile_twice
      split: sum.splits option.splits list.splits)

lemma saveProfile_ok:
  "user_profile_ok (user_profile db) \<Longrightarrow> \<bar>fst call\<bar> \<le> 2 ^ 53 \<Longrightarrow>
     user_profile (saveProfile env db call) =
       [\<lparr>row_id = 1, row_age = SqlInt (fst call), row_condition = SqlText (snd call)\<rparr>]"
  by (simp add: saveProfile_def post_profile_plain upsert_profile_ok)

lemma user_profile_ok_single: "user_profile_ok [\<lparr>row_id = 1, row_age = a, row_condition = c\<rparr>]"
  by (simp add: user_profile_ok_def)

lemma saveProfile_sequence:
  "user_profile_ok (user_profile db) \<Longrightarrow> calls \<noteq> [] \<Longrightarrow>
   list_all (\<lambda>call. \<bar>fst call\<bar> \<le> 2 ^ 53) calls \<Longrightarrow>
     user_profile (foldl (saveProfile env) db calls) =
       [\<lparr>row_id = 1, row_age = SqlInt (fst (last calls)),
         row_condition = SqlText (snd (last calls))\<rparr>]"
proof (induction calls arbitrary: db)
  case Nil
  then show ?case by simp
next
  case (Cons call calls)
  have first: "user_profile (saveProfile env db call) =
       [\<lparr>row_id = 1, row_age = SqlInt (fst call), row_condition = SqlText (snd call)\<rparr>]"
    using Cons.prems by (simp add: saveProfile_ok)
  show ?case
  proof (cases "calls = []")
    case True
    with first show ?thesis by simp
  next
    case False
    have "user_profile_ok (user_profile (saveProfile env db call))"
      by (simp add: first user_profile_ok_single)
    with Cons.IH [of "saveProfile env db call"] False Cons.prems(3)
    show ?thesis by simp
  qed
qed

text \<open>
  C9. \<open>GET /api/profile\<close> answers with the row of the profile when the table holds it
  (its id 1, its age and its condition: NULL as \<open>null\<close>, an integer as that number, a text
  as that string) and with the empty object when the table is empty; it always answers
  (there is no error answer) and it leaves the store as it was. After a save of an
  integer age and a string condition it answers with exactly these two values.
\<close>

theorem getProfile_row_or_empty:
  "snd (get_profile db) = db \<and>
   (\<exists>v. fst (get_profile db) = Ok v) \<and>
   (user_profile db = [] \<longrightarrow> fst (get_profile db) = Ok (JObj [])) \<and>
   (\<forall>r. user_profile_ok (user_profile db) \<and> r \<in> set (user_profile db)
        \<longrightarrow> fst (get_profile db) =
              Ok (JObj [(''id'', JNum 1),
                        (''age'',
                           case row_age r of
                             SqlNull \<Rightarrow> JNull | SqlInt n \<Rightarrow> JNum n | SqlText s \<Rightarrow> JStr s),
                        (''condition'',
                           case row_condition r of
                             SqlNull \<Rightarrow> JNull | SqlInt n \<Rightarrow> JNum n | SqlText s \<Rightarrow> JStr s)])) \<and>
   (user_profile_ok (user_profile db) \<and> \<bar>a\<bar> \<le> 2 ^ 53 \<longrightarrow>
      fst (get_profile (saveProfile env db (a, c))) =
        Ok (JObj [(''id'', JNum 1), (''age'', JNum a), (''condition'', JStr c)]))"
proof -
  have conv: "sql_to_js x = (case x of SqlNull \<Rightarrow> JNull | SqlInt n \<Rightarrow> JNum n | SqlText s \<Rightarrow> JStr s)"
    for x by (cases x) simp_all
  have one: "fst (get_profile d) =
      Ok (JObj [(''id'', JNum 1),
                (''age'',
                   case row_age r of
                     SqlNull \<Rightarrow> JNull | SqlInt n \<Rightarrow> JNum n | SqlText s \<Rightarrow> JStr s),
                (''condition'',
                   case row_condition r of
                     SqlNull \<Rightarrow> JNull | SqlInt n \<Rightarrow> JNum n | SqlText s \<Rightarrow> JStr s)])"
    if "user_profile_ok (user_profile d)" and "r \<in> set (user_profile d)" for r d
    using user_profile_ok_cases [OF that(1)] that(2)
    by (auto simp: get_profile_def select_profile_def profile_to_js_def conv)
  have x: "snd (get_profile db) = db"
    by (simp add: get_profile_def split: option.splits)
  have y: "\<exists>v. fst (get_profile db) = Ok v"
    by (simp add: get_profile_def split: option.splits)
  have z: "user_profile db = [] \<longrightarrow> fst (get_profile db) = Ok (JObj [])"
    by (simp add: get_profile_def select_profile_def)
  have saved: "fst (get_profile (saveProfile env db (a, c))) =
        Ok (JObj [(''id'', JNum 1), (''age'', JNum a), (''condition'', JStr c)])"
    if "user_profile_ok (user_profile db)" and "\<bar>a\<bar> \<le> 2 ^ 53"
  proof -
    have t: "user_profile (saveProfile env db (a, c)) =
        [\<lparr>row_id = 1, row_age = SqlInt a, row_condition = SqlText c\<rparr>]"
      using that by (simp add: saveProfile_ok)
    have "user_profile_ok (user_profile (saveProfile env db (a, c)))"
      unfolding t by (rule user_profile_ok_single)
    from one [OF this, of "\<lparr>row_id = 1, row_age = SqlInt a, row_condition = SqlText c\<rparr>"] t
    show ?thesis by simp
  qed
  from x y z one [of db] saved show ?thesis by blast
qed

theorem getProfile_row_or_empty_witness:
  "fst (get_profile empty_db) = Ok (JObj []) \<and>
   fst (get_profile one_row_db) =
     Ok (JObj [(''id'', JNum 1), (''age'', JNum 70), (''condition'', JStr diabetes)]) \<and>
   fst (get_profile (saveProfile sample_env empty_db (80, ''x''))) =
     Ok (JObj [(''id'', JNum 1), (''age'', JNum 80), (''condition'', JStr ''x'')])"
proof -
  have e: "user_profile empty_db = []" by (simp add: empty_db_def)
  have o: "user_profile_ok (user_profile one_row_db) \<and>
      \<lparr>row_id = 1, row_age = SqlInt 70, row_condition = SqlText diabetes\<rparr>
        \<in> set (user_profile one_row_db)"
    by (simp add: one_row_db_def user_profile_ok_def)
  have k: "user_profile_ok (user_profile empty_db) \<and> \<bar>80 :: int\<bar> \<le> 2 ^ 53"
    by (simp add: empty_db_def user_profile_ok_def)
  show ?thesis
    using getProfile_row_or_empty [of empty_db 80 sample_env "''x''"]
      getProfile_row_or_empty [of one_row_db 80 sample_env "''x''"] e o k
    by auto
qed

text \<open>
  C4. \<open>POST /api/profile\<close> is an upsert on a singleton: on a table that satisfies its
  constraints, after any non-empty sequence of saves (an integer age, a string
  condition) the table holds exactly one row, with the age and the condition of the
  last save; a save repeated with the same input leaves the store unchanged; a save
  does not touch the logs.
\<close>

theorem saveProfile_upsert:
  "(user_profile_ok (user_profile db) \<and> calls \<noteq> [] \<and>
      list_all (\<lambda>call. \<bar>fst call\<bar> \<le> 2 ^ 53) calls \<longrightarrow>
      user_profile (foldl (saveProfile env) db calls) =
        [\<lparr>row_id = 1, row_age = SqlInt (fst (last calls)),
          row_condition = SqlText (snd (last calls))\<rparr>]) \<and>
   saveProfile env (saveProfile env db call) call = saveProfile env db call \<and>
   food_logs (saveProfile env db call) = food_logs db"
proof -
  have "food_logs (saveProfile env db call) = food_logs db"
    by (auto simp: saveProfile_def post_profile_def split: sum.splits option.splits list.splits)
  then show ?thesis
    by (simp add: saveProfile_sequence saveProfile_def post_profile_twice)
qed

theorem saveProfile_upsert_witness:
  "user_profile (foldl (saveProfile sample_env) empty_db [(70, diabetes), (80, ''x''), (80, ''x'')]) =
     [\<lparr>row_id = 1, row_age = SqlInt 80, row_condition = SqlText ''x''\<rparr>]"
proof -
  have h: "user_profile_ok (user_profile empty_db) \<and> [(70, diabetes), (80, ''x''), (80::int, ''x'')] \<noteq> [] \<and>
      list_all (\<lambda>call. \<bar>fst call\<bar> \<le> 2 ^ 53) [(70, diabetes), (80, ''x''), (80::int, ''x'')]"
    by (simp add: empty_db_def user_profile_ok_def)
  show ?thesis
    using saveProfile_upsert [of empty_db "[(70, diabetes), (80, ''x''), (80, ''x'')]" sample_env] h
    by simp
qed

section \<open>Properties of the log store\<close>

lemma order_by_created_at_desc_sorted:
  "sorted_wrt (\<lambda>a b. created_at b \<le> created_at a) (order_by_created_at_desc rows)"
proof -
  have "sorted (map created_at (sort_key created_at (rev rows)))" by (rule sorted_sort_key)
  then have "sorted_wrt (\<lambda>a b. created_at a \<le> created_at b) (sort_key created_at (rev rows))"
    by (simp add: sorted_map)
  then show ?thesis
    by (simp add: order_by_created_at_desc_def sorted_wrt_rev)
qed

lemma order_by_created_at_desc_set [simp]:
  "set (order_by_created_at_desc rows) = set rows"
  by (simp add: order_by_created_at_desc_def)

lemma order_by_created_at_desc_length [simp]:
  "length (order_by_created_at_desc rows) = length rows"
  by (simp add: order_by_created_at_desc_def)

text \<open>
  C3. For every store, \<open>GET /api/logs\<close> returns at most 50 rows (all of them when there
  are fewer), newest first by \<open>created_at\<close>; the rows are rows of the table, no row left
  out is newer than a returned one, and the store is not modified.
\<close>

theorem listRecentLogs_capped_sorted:
  "length (fst (get_logs db)) = min 50 (length (food_logs db)) \<and>
   sorted_wrt (\<lambda>a b. created_at b \<le> created_at a) (fst (get_logs db)) \<and>
   set (fst (get_logs db)) \<subseteq> set (food_logs db) \<and>
   (\<forall>x \<in> set (food_logs db) - set (fst (get_logs db)).
      \<forall>y \<in> set (fst (get_logs db)). created_at x \<le> created_at y) \<and>
   snd (get_logs db) = db"
proof -
  let ?all = "order_by_created_at_desc (food_logs db)"
  have s: "sorted_wrt (\<lambda>a b. created_at b \<le> created_at a) (take 50 ?all @ drop 50 ?all)"
    by (simp add: order_by_created_at_desc_sorted)
  have u: "set (food_logs db) = set (take 50 ?all) \<union> set (drop 50 ?all)"
    by (metis append_take_drop_id order_by_created_at_desc_set set_append)
  have older: "created_at x \<le> created_at y"
    if "x \<in> set (food_logs db) - set (take 50 ?all)" and "y \<in> set (take 50 ?all)" for x y
  proof -
    from that(1) u have "x \<in> set (drop 50 ?all)" by blast
    with s that(2) show ?thesis unfolding sorted_wrt_append by blast
  qed
  have sub: "set (take 50 ?all) \<subseteq> set (food_logs db)"
    using u by blast
  have srt: "sorted_wrt (\<lambda>a b. created_at b \<le> created_at a) (take 50 ?all)"
    using s unfolding sorted_wrt_append by blast
  show ?thesis
    using older sub srt by (simp add: get_logs_def select_logs_def min.commute)
qed

theorem listRecentLogs_capped_sorted_witness:
  "length (fst (get_logs full_db)) = 50 \<and> old_log \<notin> set (fst (get_logs full_db)) \<and>
   created_at old_log \<le> created_at (hd (fst (get_logs full_db)))"
proof -
  have r: "fst (get_logs full_db) = replicate 50 new_log"
    by code_simp
  have d: "old_log \<noteq> new_log"
    by (simp add: old_log_def new_log_def)
  have m: "old_log \<in> set (food_logs full_db) - set (fst (get_logs full_db))"
    unfolding r using d by (simp add: full_db_def)
  have h: "hd (fst (get_logs full_db)) \<in> set (fst (get_logs full_db))"
    unfolding r by simp
  have l: "length (food_logs full_db) = 51"
    by (simp add: full_db_def)
  show ?thesis
    using listRecentLogs_capped_sorted [of full_db] m h l by auto
qed

section \<open>Properties of the advisory client\<close>

lemma sample_env_simps [simp]:
  "JSON_parse sample_env = sample_parse"
  "ToString sample_env = sample_ToString"
  "body_accepted sample_env b"
  "driver_bind sample_env cols args = None"
  by (simp_all add: sample_env_def)

lemma sample_parse_simps:
  "sample_parse unflagged_text = Some unflagged_result" "unflagged_text \<noteq> []"
  "sample_parse canned_text = Some canned_result" "canned_text \<noteq> []"
  "sample_parse ''oops'' = None" "sample_parse ''{}'' = Some (JObj [])"
  by (simp_all add: sample_parse_def unflagged_text_def canned_text_def)

text \<open>
  C8. The meal-analysis request asks for an object with exactly the four properties
  \<open>foodName\<close> (string), \<open>isSafe\<close> (boolean), \<open>analysis\<close> (string) and \<open>tips\<close> (string),
  all four required; the daily-recommendation request asks for an object with exactly
  the property \<open>recommendation\<close> (string), required. Both ask for JSON.
\<close>

theorem response_schemas:
  "schema_properties (responseSchema (analyzeFoodImage_request base64Image)) =
     [(''foodName'', Type_STRING), (''isSafe'', Type_BOOLEAN), (''analysis'', Type_STRING),
      (''tips'', Type_STRING)] \<and>
   schema_required (responseSchema (analyzeFoodImage_request base64Image)) =
     [''foodName'', ''isSafe'', ''analysis'', ''tips''] \<and>
   set (schema_required (responseSchema (analyzeFoodImage_request base64Image))) =
     fst ` set (schema_properties (responseSchema (analyzeFoodImage_request base64Image))) \<and>
   schema_properties (responseSchema getDailyRecommendation_request) =
     [(''recommendation'', Type_STRING)] \<and>
   schema_required (responseSchema getDailyRecommendation_request) = [''recommendation''] \<and>
   responseMimeType (analyzeFoodImage_request base64Image) = ''application/json'' \<and>
   responseMimeType getDailyRecommendation_request = ''application/json''"
  by (simp add: analyzeFoodImage_request_def getDailyRecommendation_request_def)

text \<open>
  C10. Where \<open>JSON.parse("{}")\<close> is the empty object: when the reply's text is absent or
  empty, \<open>analyzeFoodImage\<close> and \<open>getDailyRecommendation\<close> return the empty object and
  raise nothing; and whatever a non-empty text parses to is returned as it is, with no
  check of the schema's required properties.
\<close>

theorem empty_reply_is_empty_object:
  assumes "JSON_parse env ''{}'' = Some (JObj [])"
  shows "(t = None \<or> t = Some [] \<longrightarrow>
            analyzeFoodImage env (Some b) a c (Response t) = Inr (JObj []) \<and>
            getDailyRecommendation env l a c (Response t) = Inr (JObj [])) \<and>
         (s \<noteq> [] \<and> JSON_parse env s = Some v \<longrightarrow>
            analyzeFoodImage env (Some b) a c (Response (Some s)) = Inr v \<and>
            getDailyRecommendation env l a c (Response (Some s)) = Inr v)"
  using assms
  by (auto simp: analyzeFoodImage_def getDailyRecommendation_def parse_reply_def
      text_or_default_def)

theorem empty_reply_is_empty_object_witness:
  "analyzeFoodImage sample_env (Some ''x'') (JNum 70) (JStr diabetes) (Response None) =
     Inr (JObj []) \<and>
   getDailyRecommendation sample_env [] (JNum 70) (JStr diabetes) (Response (Some [])) =
     Inr (JObj []) \<and>
   analyzeFoodImage sample_env (Some ''x'') (JNum 70) (JStr diabetes)
     (Response (Some unflagged_text)) = Inr unflagged_result"
proof -
  have p: "JSON_parse sample_env ''{}'' = Some (JObj [])"
    by (simp add: sample_parse_simps)
  have q: "unflagged_text \<noteq> [] \<and> JSON_parse sample_env unflagged_text = Some unflagged_result"
    by (simp add: sample_parse_simps)
  show ?thesis
    using empty_reply_is_empty_object [OF p, of None "''x''" "JNum 70" "JStr diabetes" "[]"
        unflagged_text unflagged_result]
      empty_reply_is_empty_object [OF p, of "Some []" "''x''" "JNum 70" "JStr diabetes" "[]"
        unflagged_text unflagged_result]
      q
    by simp
qed

section \<open>Properties of the analysis flow\<close>

subsection \<open>What each function leaves unchanged\<close>

lemma fetchRecommendation_fields [simp]:
  "pending (fetchRecommendation env r w) = pending w"
  "loading (fetchRecommendation env r w) = loading w"
  "server (fetchRecommendation env r w) = server w"
  "logs (fetchRecommendation env r w) = logs w"
  "profile (fetchRecommendation env r w) = profile w"
  "analysisResult (fetchRecommendation env r w) = analysisResult w"
  "activeTab (fetchRecommendation env r w) = activeTab w"
  "trace (fetchRecommendation env r w) =
     trace w @ [GetDailyRecommendation (take 5 (logs w)) (age (profile w)) (condition (profile w))]"
  by (simp_all add: fetchRecommendation_def Let_def split: sum.splits)

lemma useEffect_fields [simp]:
  "pending (useEffect_profile_logs env r w) = pending w"
  "loading (useEffect_profile_logs env r w) = loading w"
  "server (useEffect_profile_logs env r w) = server w"
  "logs (useEffect_profile_logs env r w) = logs w"
  "profile (useEffect_profile_logs env r w) = profile w"
  "analysisResult (useEffect_profile_logs env r w) = analysisResult w"
  "activeTab (useEffect_profile_logs env r w) = activeTab w"
  by (simp_all add: useEffect_profile_logs_def)

lemma useEffect_trace:
  "trace (useEffect_profile_logs env r w) =
     trace w @ (if truthy (age (profile w)) \<and> logs w \<noteq> []
                then [GetDailyRecommendation (take 5 (logs w)) (age (profile w)) (condition (profile w))]
                else [])"
  by (simp add: useEffect_profile_logs_def)

lemma get_profile_snd [simp]: "snd (get_profile db) = db"
  by (simp add: get_profile_def split: option.splits)

lemma get_profile_fst: "\<exists>v. fst (get_profile db) = Ok v"
  by (simp add: get_profile_def split: option.splits)

lemma fetchProfile_fields [simp]:
  "pending (fetchProfile env r w) = pending w"
  "loading (fetchProfile env r w) = loading w"
  "server (fetchProfile env r w) = server w"
  "logs (fetchProfile env r w) = logs w"
  "analysisResult (fetchProfile env r w) = analysisResult w"
  "activeTab (fetchProfile env r w) = activeTab w"
  using get_profile_snd [of "server w"]
  by (auto simp: fetchProfile_def split: prod.splits response.splits simp del: get_profile_snd)

lemma fetchLogs_fields [simp]:
  "pending (fetchLogs env r w) = pending w"
  "loading (fetchLogs env r w) = loading w"
  "server (fetchLogs env r w) = server w"
  "logs (fetchLogs env r w) = select_logs (server w)"
  "profile (fetchLogs env r w) = profile w"
  "analysisResult (fetchLogs env r w) = analysisResult w"
  "activeTab (fetchLogs env r w) = activeTab w"
  by (simp_all add: fetchLogs_def get_logs_def)

lemma fetchLogs_trace:
  "trace (fetchLogs env r w) =
     trace w @ (if truthy (age (profile w)) \<and> select_logs (server w) \<noteq> []
                then [GetDailyRecommendation (take 5 (select_logs (server w))) (age (profile w))
                        (condition (profile w))]
                else [])"
  by (simp add: fetchLogs_def get_logs_def useEffect_trace)

lemma select_logs_Nil [simp]: "select_logs db = [] \<longleftrightarrow> food_logs db = []"
proof -
  have "length (order_by_created_at_desc (food_logs db)) = length (food_logs db)"
    by simp
  then have "order_by_created_at_desc (food_logs db) = [] \<longleftrightarrow> food_logs db = []"
    by (metis length_0_conv)
  then show ?thesis
    by (simp add: select_logs_def take_eq_Nil)
qed

subsection \<open>The insertion of a log\<close>

lemma post_logs_plain:
  "post_logs env now
     (request_body (JObj [(''image_url'', JStr u), (''food_name'', JStr f), (''analysis'', JStr a),
                          (''is_safe'', flag)])) db =
     (Ok success,
      insert_log now (SqlText u) (SqlText f) (SqlText a) (SqlInt (if truthy flag then 1 else 0)) db)"
  by (cases "flag = JUndefined") (simp_all add: post_logs_def bind_row_def)

lemma log_body_strings:
  "get_prop v ''foodName'' = Inr foodName \<Longrightarrow> get_prop v ''analysis'' = Inr (JStr a) \<Longrightarrow>
   get_prop v ''tips'' = Inr (JStr t) \<Longrightarrow> get_prop v ''isSafe'' = Inr flag \<Longrightarrow>
     log_body env b v =
       Inr (JObj [(''image_url'', JStr b), (''food_name'', foodName),
                  (''analysis'', JStr (a @ tip_separator @ t)), (''is_safe'', flag)])"
  by (simp add: log_body_def string_operand_def)

lemma onloadend_failure:
  "analyzeFoodImage env base64 a c reply = Inl e \<Longrightarrow>
     onloadend env now reply r (base64, a, c) w =
       catch_finally (w\<lparr>trace := trace w @ [AnalyzeFoodImage base64 a c]\<rparr>)"
  by (simp add: onloadend_def)

lemma onloadend_saved:
  assumes "analyzeFoodImage env (Some b) a c reply = Inr v"
    and "log_body env b v = Inr body"
  shows "onloadend env now reply r (Some b, a, c) w =
     (fetchLogs env r
        (w\<lparr>trace := trace w @ [AnalyzeFoodImage (Some b) a c], analysisResult := v,
           server := snd (fetch_post env (post_logs env now) body (server w))\<rparr>))
     \<lparr>loading := False\<rparr>"
  using assms by (simp add: onloadend_def Let_def)

lemma analysis_flow_started:
  assumes "rendered w = HomeView" and "pending w = []"
    and "truthy (age (profile w))" and "truthy (condition (profile w))"
  shows "analysis_flow env now b reply r w =
     onloadend env now reply r (Some b, age (profile w), condition (profile w))
       (w\<lparr>loading := True, analysisResult := JNull, pending := []\<rparr>)"
  using assms by (simp add: analysis_flow_def run_def handleImageUpload_def)

lemma analysis_flow_failure:
  assumes "rendered w = HomeView" and "pending w = []"
    and "truthy (age (profile w))" and "truthy (condition (profile w))"
    and "reply = ProviderError \<or> (\<exists>s. reply = Response (Some s) \<and> s \<noteq> [] \<and> JSON_parse env s = None)"
  shows "analysis_flow env now b reply r w =
     w\<lparr>loading := False, analysisResult := JNull, pending := [],
       trace := trace w @ [AnalyzeFoodImage (Some b) (age (profile w)) (condition (profile w)),
                           Alert AnalysisFailed]\<rparr>"
proof -
  from assms(5) have "\<exists>e. analyzeFoodImage env (Some b) (age (profile w)) (condition (profile w)) reply = Inl e"
    by (auto simp: analyzeFoodImage_def parse_reply_def text_or_default_def)
  then obtain e where
    "analyzeFoodImage env (Some b) (age (profile w)) (condition (profile w)) reply = Inl e" ..
  then show ?thesis
    using assms(1-4)
    by (simp add: analysis_flow_started onloadend_failure catch_finally_def)
qed

lemma analysis_flow_saved:
  assumes "rendered w = HomeView" and "pending w = []"
    and "truthy (age (profile w))" and "truthy (condition (profile w))"
    and "s \<noteq> []" and "JSON_parse env s = Some v"
    and "get_prop v ''foodName'' = Inr (JStr f)" and "get_prop v ''analysis'' = Inr (JStr a)"
    and "get_prop v ''tips'' = Inr (JStr t)" and "get_prop v ''isSafe'' = Inr flag"
    and "body_accepted env
           (JObj [(''image_url'', JStr b), (''food_name'', JStr f),
                  (''analysis'', JStr (a @ tip_separator @ t)), (''is_safe'', flag)])"
  shows "server (analysis_flow env now b (Response (Some s)) r w) =
           insert_log now (SqlText b) (SqlText f) (SqlText (a @ tip_separator @ t))
             (SqlInt (if truthy flag then 1 else 0)) (server w)"
    and "trace (analysis_flow env now b (Response (Some s)) r w) =
           trace w @
           [AnalyzeFoodImage (Some b) (age (profile w)) (condition (profile w)),
            GetDailyRecommendation
              (take 5 (select_logs (server (analysis_flow env now b (Response (Some s)) r w))))
              (age (profile w)) (condition (profile w))]"
proof -
  let ?body = "JObj [(''image_url'', JStr b), (''food_name'', JStr f),
                  (''analysis'', JStr (a @ tip_separator @ t)), (''is_safe'', flag)]"
  have p: "analyzeFoodImage env (Some b) (age (profile w)) (condition (profile w))
             (Response (Some s)) = Inr v"
    using assms(5,6) by (simp add: analyzeFoodImage_def parse_reply_def text_or_default_def)
  have l: "log_body env b v = Inr ?body"
    using assms(7-10) by (rule log_body_strings)
  have f: "analysis_flow env now b (Response (Some s)) r w =
     (fetchLogs env r
        (w\<lparr>loading := True, analysisResult := JNull, pending := [],
           trace := trace w @ [AnalyzeFoodImage (Some b) (age (profile w)) (condition (profile w))],
           analysisResult := v,
           server := snd (fetch_post env (post_logs env now) ?body (server w))\<rparr>))
     \<lparr>loading := False\<rparr>"
    using assms(1-4) by (simp add: analysis_flow_started onloadend_saved [OF p l])
  have q: "snd (fetch_post env (post_logs env now) ?body (server w)) =
      insert_log now (SqlText b) (SqlText f) (SqlText (a @ tip_separator @ t))
             (SqlInt (if truthy flag then 1 else 0)) (server w)"
    using assms(11) by (simp add: fetch_post_def post_logs_plain del: request_body.simps)
  show "server (analysis_flow env now b (Response (Some s)) r w) =
           insert_log now (SqlText b) (SqlText f) (SqlText (a @ tip_separator @ t))
             (SqlInt (if truthy flag then 1 else 0)) (server w)"
    unfolding f q by simp
  have n: "food_logs (insert_log now (SqlText b) (SqlText f) (SqlText (a @ tip_separator @ t))
             (SqlInt (if truthy flag then 1 else 0)) (server w)) \<noteq> []"
    by (simp add: insert_log_def)
  show "trace (analysis_flow env now b (Response (Some s)) r w) =
           trace w @
           [AnalyzeFoodImage (Some b) (age (profile w)) (condition (profile w)),
            GetDailyRecommendation
              (take 5 (select_logs (server (analysis_flow env now b (Response (Some s)) r w))))
              (age (profile w)) (condition (profile w))]"
    unfolding f q using assms(3) n by (simp add: fetchLogs_trace)
qed

lemma sample_world_home:
  "rendered sample_world = HomeView" "pending sample_world = []"
  "truthy (age (profile sample_world))" "truthy (condition (profile sample_world))"
  "server sample_world = empty_db" "trace sample_world = []"
  "age (profile sample_world) = JNum 70" "condition (profile sample_world) = JStr diabetes"
  by (simp_all add: sample_world_def init_def rendered_def diabetes_def)

text \<open>
  C5. With the profile's age or condition not set, a capture changes neither the started
  analyses nor the store, and its only effect is the alert: no call of
  \<open>analyzeFoodImage\<close> is started; with a file chosen, the handler alerts and switches
  to the profile tab, so that from the home view the profile form is shown.
\<close>

theorem capture_without_profile:
  assumes "\<not> truthy (age (profile w)) \<or> \<not> truthy (condition (profile w))"
  shows "pending (step env (ClickCamera u) w) = pending w \<and>
         server (step env (ClickCamera u) w) = server w \<and>
         loading (step env (ClickCamera u) w) = loading w \<and>
         (trace (step env (ClickCamera u) w) = trace w \<or>
          trace (step env (ClickCamera u) w) = trace w @ [Alert NeedProfile]) \<and>
         handleImageUpload (File r) w =
           w\<lparr>trace := trace w @ [Alert NeedProfile], activeTab := Profile\<rparr> \<and>
         (rendered w = HomeView \<longrightarrow>
            rendered (step env (ClickCamera (File r)) w) = ProfileView \<and>
            trace (step env (ClickCamera (File r)) w) = trace w @ [Alert NeedProfile])"
  using assms
  by (auto simp: handleImageUpload_def rendered_def split: upload.splits if_splits)

theorem capture_without_profile_witness:
  "step sample_env (ClickCamera (File (Some ''x''))) (init empty_db) =
     (init empty_db)\<lparr>trace := [Alert NeedProfile], activeTab := Profile\<rparr>"
proof -
  have h: "\<not> truthy (age (profile (init empty_db))) \<or>
      \<not> truthy (condition (profile (init empty_db)))"
    by (simp add: init_def)
  have v: "rendered (init empty_db) = HomeView"
    by (simp add: init_def rendered_def)
  have t: "trace (init empty_db) = []"
    by (simp add: init_def)
  show ?thesis
    using capture_without_profile [OF h, of sample_env "File (Some ''x'')" "Some ''x''"] v t
    by simp
qed

text \<open>
  C1 as stated fails: for a reply that parses to an object with \<open>foodName\<close>, \<open>analysis\<close>
  and \<open>tips\<close> but without \<open>isSafe\<close>, the flow raises no failure alert and a log with
  \<open>is_safe = 0\<close> is stored.
\<close>

theorem missing_isSafe_is_logged:
  "JSON_parse sample_env unflagged_text = Some unflagged_result \<and>
   get_prop unflagged_result ''isSafe'' = Inr JUndefined \<and>
   food_logs (server sample_world) = [] \<and>
   food_logs (server unflagged_run) =
     [\<lparr>log_id = 1, image_url = SqlText sample_image, food_name = SqlText ''rice'',
       analysis = SqlText (''fine'' @ tip_separator @ ''less''), is_safe = SqlInt 0,
       created_at = sample_now\<rparr>] \<and>
   Alert AnalysisFailed \<notin> set (trace unflagged_run)"
proof -
  have g: "get_prop unflagged_result ''foodName'' = Inr (JStr ''rice'')"
    "get_prop unflagged_result ''analysis'' = Inr (JStr ''fine'')"
    "get_prop unflagged_result ''tips'' = Inr (JStr ''less'')"
    "get_prop unflagged_result ''isSafe'' = Inr JUndefined"
    by (simp_all add: unflagged_result_def)
  have p: "JSON_parse sample_env unflagged_text = Some unflagged_result"
    by (simp add: sample_parse_simps)
  have a: "body_accepted sample_env
       (JObj [(''image_url'', JStr sample_image), (''food_name'', JStr ''rice''),
              (''analysis'', JStr (''fine'' @ tip_separator @ ''less'')), (''is_safe'', JUndefined)])"
    by simp
  note f = analysis_flow_saved [OF sample_world_home(1-4) sample_parse_simps(2) p g a,
      of sample_now ProviderError]
  have "server unflagged_run =
      insert_log sample_now (SqlText sample_image) (SqlText ''rice'')
        (SqlText (''fine'' @ tip_separator @ ''less'')) (SqlInt 0) empty_db"
    unfolding unflagged_run_def f(1) by (simp add: sample_world_home)
  then have l: "food_logs (server unflagged_run) =
     [\<lparr>log_id = 1, image_url = SqlText sample_image, food_name = SqlText ''rice'',
       analysis = SqlText (''fine'' @ tip_separator @ ''less''), is_safe = SqlInt 0,
       created_at = sample_now\<rparr>]"
    by (simp add: insert_log_def empty_db_def)
  have t: "Alert AnalysisFailed \<notin> set (trace unflagged_run)"
    unfolding unflagged_run_def f(2) by (simp add: sample_world_home)
  from p g(4) l t show ?thesis
    by (simp add: sample_world_home empty_db_def)
qed

text \<open>
  C1, amended. From the home view with the profile set: if the reply's text is not empty
  and \<open>JSON.parse\<close> rejects it, the flow alerts the failure, stores nothing and ends
  the loading state. A reply that parses to an object whose \<open>foodName\<close>, \<open>analysis\<close> and
  \<open>tips\<close> are strings and whose \<open>isSafe\<close> is missing is not reported: its log is stored
  with \<open>is_safe = 0\<close>, and the only effects are the two calls of the advisory client.
\<close>

theorem unparseable_reply_reports_failure:
  assumes "rendered w = HomeView" and "pending w = []"
    and "truthy (age (profile w))" and "truthy (condition (profile w))"
  shows "(s \<noteq> [] \<and> JSON_parse env s = None \<longrightarrow>
            server (analysis_flow env now b (Response (Some s)) r w) = server w \<and>
            trace (analysis_flow env now b (Response (Some s)) r w) =
              trace w @ [AnalyzeFoodImage (Some b) (age (profile w)) (condition (profile w)),
                         Alert AnalysisFailed] \<and>
            \<not> loading (analysis_flow env now b (Response (Some s)) r w)) \<and>
         (s \<noteq> [] \<and> JSON_parse env s = Some v \<and>
          get_prop v ''foodName'' = Inr (JStr f) \<and> get_prop v ''analysis'' = Inr (JStr a) \<and>
          get_prop v ''tips'' = Inr (JStr t) \<and> get_prop v ''isSafe'' = Inr JUndefined \<and>
          body_accepted env
            (JObj [(''image_url'', JStr b), (''food_name'', JStr f),
                   (''analysis'', JStr (a @ tip_separator @ t)), (''is_safe'', JUndefined)]) \<longrightarrow>
            food_logs (server (analysis_flow env now b (Response (Some s)) r w)) =
              food_logs (server w) @
              [\<lparr>log_id = food_logs_seq (server w) + 1, image_url = SqlText b,
                food_name = SqlText f, analysis = SqlText (a @ tip_separator @ t),
                is_safe = SqlInt 0, created_at = now\<rparr>] \<and>
            trace (analysis_flow env now b (Response (Some s)) r w) =
              trace w @
              [AnalyzeFoodImage (Some b) (age (profile w)) (condition (profile w)),
               GetDailyRecommendation
                 (take 5 (select_logs (server (analysis_flow env now b (Response (Some s)) r w))))
                 (age (profile w)) (condition (profile w))])"
proof (intro conjI impI)
  assume u: "s \<noteq> [] \<and> JSON_parse env s = None"
  then have q: "Response (Some s) = ProviderError \<or>
      (\<exists>x. Response (Some s) = Response (Some x) \<and> x \<noteq> [] \<and> JSON_parse env x = None)"
    by simp
  note f = analysis_flow_failure [OF assms q, of now b r]
  show "server (analysis_flow env now b (Response (Some s)) r w) = server w"
    unfolding f by simp
  show "trace (analysis_flow env now b (Response (Some s)) r w) =
      trace w @ [AnalyzeFoodImage (Some b) (age (profile w)) (condition (profile w)),
                 Alert AnalysisFailed]"
    unfolding f by simp
  show "\<not> loading (analysis_flow env now b (Response (Some s)) r w)"
    unfolding f by simp
next
  assume h: "s \<noteq> [] \<and> JSON_parse env s = Some v \<and>
          get_prop v ''foodName'' = Inr (JStr f) \<and> get_prop v ''analysis'' = Inr (JStr a) \<and>
          get_prop v ''tips'' = Inr (JStr t) \<and> get_prop v ''isSafe'' = Inr JUndefined \<and>
          body_accepted env
            (JObj [(''image_url'', JStr b), (''food_name'', JStr f),
                   (''analysis'', JStr (a @ tip_separator @ t)), (''is_safe'', JUndefined)])"
  note f = analysis_flow_saved [OF assms, of s env v f a t JUndefined b now r]
  from h f(1) show "food_logs (server (analysis_flow env now b (Response (Some s)) r w)) =
              food_logs (server w) @
              [\<lparr>log_id = food_logs_seq (server w) + 1, image_url = SqlText b,
                food_name = SqlText f, analysis = SqlText (a @ tip_separator @ t),
                is_safe = SqlInt 0, created_at = now\<rparr>]"
    by (simp add: insert_log_def)
  from h f(2) show "trace (analysis_flow env now b (Response (Some s)) r w) =
              trace w @
              [AnalyzeFoodImage (Some b) (age (profile w)) (condition (profile w)),
               GetDailyRecommendation
                 (take 5 (select_logs (server (analysis_flow env now b (Response (Some s)) r w))))
                 (age (profile w)) (condition (profile w))]"
    by simp
qed

theorem unparseable_reply_reports_failure_witness:
  "server (analysis_flow sample_env sample_now sample_image (Response (Some ''oops''))
             ProviderError sample_world) = empty_db \<and>
   trace (analysis_flow sample_env sample_now sample_image (Response (Some ''oops''))
            ProviderError sample_world) =
     [AnalyzeFoodImage (Some sample_image) (JNum 70) (JStr diabetes), Alert AnalysisFailed] \<and>
   map is_safe (food_logs (server (analysis_flow sample_env sample_now sample_image
      (Response (Some unflagged_text)) ProviderError sample_world))) = [SqlInt 0]"
proof -
  have g: "unflagged_text \<noteq> [] \<and> JSON_parse sample_env unflagged_text = Some unflagged_result \<and>
    get_prop unflagged_result ''foodName'' = Inr (JStr ''rice'') \<and>
    get_prop unflagged_result ''analysis'' = Inr (JStr ''fine'') \<and>
    get_prop unflagged_result ''tips'' = Inr (JStr ''less'') \<and>
    get_prop unflagged_result ''isSafe'' = Inr JUndefined \<and>
    body_accepted sample_env
       (JObj [(''image_url'', JStr sample_image), (''food_name'', JStr ''rice''),
              (''analysis'', JStr (''fine'' @ tip_separator @ ''less'')), (''is_safe'', JUndefined)])"
    by (simp add: sample_parse_simps unflagged_result_def)
  have o: "''oops'' \<noteq> [] \<and> JSON_parse sample_env ''oops'' = None"
    by (simp add: sample_parse_simps)
  show ?thesis
    using unparseable_reply_reports_failure [OF sample_world_home(1-4),
        of "''oops''" sample_env sample_now sample_image ProviderError]
      unparseable_reply_reports_failure [OF sample_world_home(1-4),
        of unflagged_text sample_env sample_now sample_image ProviderError
          unflagged_result "''rice''" "''fine''" "''less''"]
      g o
    by (simp add: sample_world_home empty_db_def)
qed

text \<open>
  C2. From the home view with the profile set, when the reply's text parses to
  \<open>{foodName: <rice>, isSafe: true, analysis: a, tips: t}\<close> and the server accepts the
  request body, the flow adds exactly one log: its \<open>food_name\<close> is that name and its
  \<open>is_safe\<close> is 1. In general the route stores 1 for a truthy flag and 0 for a falsy one.
\<close>

theorem canned_response_is_logged:
  assumes "rendered w = HomeView" and "pending w = []"
    and "truthy (age (profile w))" and "truthy (condition (profile w))"
    and "s \<noteq> []"
    and "JSON_parse env s =
           Some (JObj [(''foodName'', JStr rice), (''isSafe'', JBool True),
                       (''analysis'', JStr a), (''tips'', JStr t)])"
    and "body_accepted env
           (JObj [(''image_url'', JStr b), (''food_name'', JStr rice),
                  (''analysis'', JStr (a @ tip_separator @ t)), (''is_safe'', JBool True)])"
  shows "food_logs (server (analysis_flow env now b (Response (Some s)) r w)) =
           food_logs (server w) @
           [\<lparr>log_id = food_logs_seq (server w) + 1, image_url = SqlText b,
             food_name = SqlText rice, analysis = SqlText (a @ tip_separator @ t),
             is_safe = SqlInt 1, created_at = now\<rparr>] \<and>
         snd (post_logs env now
                (request_body (JObj [(''image_url'', JStr u), (''food_name'', JStr f),
                                     (''analysis'', JStr x), (''is_safe'', flag)])) db) =
           insert_log now (SqlText u) (SqlText f) (SqlText x)
             (SqlInt (if truthy flag then 1 else 0)) db"
proof -
  let ?v = "JObj [(''foodName'', JStr rice), (''isSafe'', JBool True),
                       (''analysis'', JStr a), (''tips'', JStr t)]"
  have g: "get_prop ?v ''foodName'' = Inr (JStr rice)" "get_prop ?v ''analysis'' = Inr (JStr a)"
    "get_prop ?v ''tips'' = Inr (JStr t)" "get_prop ?v ''isSafe'' = Inr (JBool True)"
    by simp_all
  have "server (analysis_flow env now b (Response (Some s)) r w) =
      insert_log now (SqlText b) (SqlText rice) (SqlText (a @ tip_separator @ t))
        (SqlInt (if truthy (JBool True) then 1 else 0)) (server w)"
    using assms(1-6) g assms(7) by (rule analysis_flow_saved(1))
  then show ?thesis
    by (simp add: insert_log_def post_logs_plain del: request_body.simps)
qed

theorem canned_response_is_logged_witness:
  "food_logs (server (analysis_flow sample_env sample_now sample_image
      (Response (Some canned_text)) ProviderError sample_world)) =
     [\<lparr>log_id = 1, image_url = SqlText sample_image, food_name = SqlText rice,
       analysis = SqlText (''...'' @ tip_separator @ ''...''), is_safe = SqlInt 1,
       created_at = sample_now\<rparr>]"
proof -
  have p: "JSON_parse sample_env canned_text =
      Some (JObj [(''foodName'', JStr rice), (''isSafe'', JBool True),
                  (''analysis'', JStr ''...''), (''tips'', JStr ''...'')])"
    by (simp add: sample_parse_simps canned_result_def)
  have a: "body_accepted sample_env
           (JObj [(''image_url'', JStr sample_image), (''food_name'', JStr rice),
                  (''analysis'', JStr (''...'' @ tip_separator @ ''...'')), (''is_safe'', JBool True)])"
    by simp
  show ?thesis
    using canned_response_is_logged [OF sample_world_home(1-4) sample_parse_simps(4) p a,
        of sample_now ProviderError]
    by (simp add: sample_world_home empty_db_def)
qed

section \<open>Invariants of the interface\<close>

lemma run_snoc: "run env (evs @ [e]) w = step env e (run env evs w)"
  by (simp add: run_def)

lemma handleProfileSave_fields [simp]:
  "pending (handleProfileSave env w) = pending w"
  "loading (handleProfileSave env w) = loading w"
  "trace (handleProfileSave env w) = trace w"
  by (simp_all add: handleProfileSave_def Let_def)

lemma post_profile_food_logs [simp]:
  "food_logs (snd (post_profile env body db)) = food_logs db"
  by (auto simp: post_profile_def split: sum.splits option.splits list.splits)

lemma handleProfileSave_food_logs [simp]:
  "food_logs (server (handleProfileSave env w)) = food_logs (server w)"
  by (simp add: handleProfileSave_def Let_def fetch_post_def)


lemma onloadend_fields [simp]:
  "pending (onloadend env now reply r cl w) = pending w"
  "loading (onloadend env now reply r cl w) = False"
  by (auto simp: onloadend_def catch_finally_def Let_def
      split: prod.splits sum.splits option.splits)


lemma useEffect_guarded:
  "list_all recommendation_guarded (trace w) \<Longrightarrow>
     list_all recommendation_guarded (trace (useEffect_profile_logs env r w))"
  by (simp add: useEffect_trace take_eq_Nil)

lemma fetchProfile_guarded:
  "list_all recommendation_guarded (trace w) \<Longrightarrow>
     list_all recommendation_guarded (trace (fetchProfile env r w))"
  by (auto simp: fetchProfile_def intro!: useEffect_guarded split: prod.splits response.splits)

lemma fetchLogs_guarded:
  "list_all recommendation_guarded (trace w) \<Longrightarrow>
     list_all recommendation_guarded (trace (fetchLogs env r w))"
  by (simp add: fetchLogs_def get_logs_def useEffect_guarded)

lemma onloadend_guarded:
  "list_all recommendation_guarded (trace w) \<Longrightarrow>
     list_all recommendation_guarded (trace (onloadend env now reply r cl w))"
  by (auto simp: onloadend_def catch_finally_def Let_def intro!: fetchLogs_guarded
      split: prod.splits sum.splits option.splits)

lemma step_guarded:
  "list_all recommendation_guarded (trace w) \<Longrightarrow>
     list_all recommendation_guarded (trace (step env e w))"
  by (cases e)
    (auto simp: handleImageUpload_def fetchProfile_guarded fetchLogs_guarded onloadend_guarded
      useEffect_guarded split: upload.splits)

lemma run_guarded:
  "list_all recommendation_guarded (trace w) \<Longrightarrow>
     list_all recommendation_guarded (trace (run env evs w))"
  by (induction evs rule: rev_induct) (simp_all add: run_snoc step_guarded run_def)

lemma handleImageUpload_server [simp]:
  "server (handleImageUpload u w) = server w"
  by (simp add: handleImageUpload_def split: upload.splits)




text \<open>
  C6. In every run from the initial state, each call of \<open>getDailyRecommendation\<close> was made
  with a truthy age and at least one log. The effect that makes the call does nothing
  when the age is not set or there is no log, and makes the call otherwise.
\<close>

theorem recommendation_needs_age_and_logs:
  "list_all recommendation_guarded (trace (run env evs (init db))) \<and>
   (\<not> truthy (age (profile w)) \<or> logs w = [] \<longrightarrow> useEffect_profile_logs env r w = w) \<and>
   (truthy (age (profile w)) \<and> logs w \<noteq> [] \<longrightarrow>
      trace (useEffect_profile_logs env r w) =
        trace w @ [GetDailyRecommendation (take 5 (logs w)) (age (profile w))
                     (condition (profile w))])"
proof -
  have "list_all recommendation_guarded (trace (init db))"
    by (simp add: init_def)
  then have "list_all recommendation_guarded (trace (run env evs (init db)))"
    by (rule run_guarded)
  then show ?thesis
    by (auto simp: useEffect_trace useEffect_profile_logs_def)
qed

theorem recommendation_needs_age_and_logs_witness:
  "useEffect_profile_logs sample_env ProviderError (init empty_db) = init empty_db \<and>
   list_all recommendation_guarded
     (trace (run sample_env
        (set_profile @ [ClickCamera (File (Some sample_image)),
           LoadEnd 0 sample_now (Response (Some canned_text)) ProviderError]) (init empty_db))) \<and>
   length (trace (run sample_env
        (set_profile @ [ClickCamera (File (Some sample_image)),
           LoadEnd 0 sample_now (Response (Some canned_text)) ProviderError]) (init empty_db))) = 2"
proof -
  have a: "\<not> truthy (age (profile (init empty_db))) \<or> logs (init empty_db) = []"
    by (simp add: init_def)
  have l: "length (trace (run sample_env
        (set_profile @ [ClickCamera (File (Some sample_image)),
           LoadEnd 0 sample_now (Response (Some canned_text)) ProviderError]) (init empty_db))) = 2"
    by code_simp
  show ?thesis
    using recommendation_needs_age_and_logs [of sample_env
        "set_profile @ [ClickCamera (File (Some sample_image)),
           LoadEnd 0 sample_now (Response (Some canned_text)) ProviderError]"
        empty_db "init empty_db" ProviderError] a l
    by simp
qed




end
